theory Spec2Isabelle
  imports Main "HOL-Library.Sublist"
begin

section \<open>The Bazaar client of rbtools (rbtools/clients/bazaar.py)\<close>

text \<open>
  The client shells out to the \<^verbatim>\<open>bzr\<close> command line and turns its output into a diff, a
  summary and a description. The model threads an explicit state through every method:
  the caller's options object (which the client mutates), the sequence of subprocesses
  started so far, what was printed, and what was sent to the debug log. The outside world
  (what a command answers) is a parameter of every function.
\<close>

subsection \<open>Data\<close>

text \<open>
  Python exceptions and the fatal \<^verbatim>\<open>die\<close> of the process helper are values.
  \<^verbatim>\<open>AttributeError\<close> is what calling \<^verbatim>\<open>.end()\<close> on \<^verbatim>\<open>None\<close> raises, \<^verbatim>\<open>IndexError\<close> what
  indexing a list out of range raises.
\<close>

datatype error = Die | AttributeError | IndexError

datatype event = CheckInstall string | Execute "string list"

text \<open>
  The fields of \<^verbatim>\<open>self.options\<close> that the client reads and writes. A string attribute may
  be \<^verbatim>\<open>None\<close>.
\<close>

record options =
  repository_url :: "string option"
  parent_branch :: "string option"
  guess_summary :: bool
  guess_description :: bool
  summary :: "string option"
  description :: "string option"

record repository_info =
  path :: string
  base_path :: string
  supports_parent_diffs :: bool

text \<open>
  The world outside: whether a command can be started at all, and the exit status and
  output of a command line.
\<close>

record env =
  installed :: "string \<Rightarrow> bool"
  run :: "string list \<Rightarrow> int \<times> string"

record state =
  opts :: options
  trace :: "event list"
  printed :: "string list list"
  debug_log :: "string list"

type_synonym 'a result = "(error + 'a) \<times> state"

subsection \<open>Python's string operations\<close>

text \<open>Truth value of an optional string: \<^verbatim>\<open>None\<close> and the empty string are false.\<close>

definition truthy :: "string option \<Rightarrow> bool" where
  "truthy v = (case v of None \<Rightarrow> False | Some s \<Rightarrow> s \<noteq> [])"

text \<open>
  \<^verbatim>\<open>str.rstrip()\<close> without argument removes trailing whitespace: space, tab, line feed,
  vertical tab, form feed and carriage return.
\<close>

definition isspace :: "char \<Rightarrow> bool" where
  "isspace c = (c \<in> set [CHR '' '', CHR 0x09, CHR 0x0A, CHR 0x0B, CHR 0x0C, CHR 0x0D])"

definition rstrip :: "string \<Rightarrow> string" where
  "rstrip s = rev (dropWhile isspace (rev s))"

text \<open>
  \<^verbatim>\<open>sub in s\<close> on strings is \<^term>\<open>sublist sub s\<close>: \<open>s\<close> is \<open>ps @ sub @ ss\<close> for some
  \<open>ps\<close> and \<open>ss\<close>.

  \<^verbatim>\<open>s.split(sep)\<close> with a non-empty separator cuts \<open>s\<close> at the occurrences of \<open>sep\<close>, found
  from left to right without overlap. \<open>acc\<close> holds the current piece, reversed.
\<close>

function split_from :: "string \<Rightarrow> string \<Rightarrow> string \<Rightarrow> string list" where
  "split_from sep acc s =
     (if s = [] then [rev acc]
      else if sep \<noteq> [] \<and> prefix sep s then rev acc # split_from sep [] (drop (length sep) s)
      else split_from sep (hd s # acc) (tl s))"
  by pat_completeness auto
termination
  by (relation "measure (\<lambda>(sep, acc, s). length s)") auto

declare split_from.simps [simp del]

definition str_split :: "string \<Rightarrow> string \<Rightarrow> string list" where
  "str_split s sep = split_from sep [] s"

text \<open>
  The regular expression of \<^verbatim>\<open>_extract_summary\<close>, \<^verbatim>\<open>\d{4}-\d{2}-\d{2}\<close>, is a sequence of
  single-character atoms. \<^verbatim>\<open>re.search\<close> returns the leftmost match, here as the pair of its
  start and end offsets, or \<^verbatim>\<open>None\<close>.
\<close>

datatype atom = Digit | Lit char

definition isdigit :: "char \<Rightarrow> bool" where
  "isdigit c = (c \<in> set ''0123456789'')"

fun atom_matches :: "atom \<Rightarrow> char \<Rightarrow> bool" where
  "atom_matches Digit c = isdigit c"
| "atom_matches (Lit l) c = (c = l)"

fun match_here :: "atom list \<Rightarrow> string \<Rightarrow> bool" where
  "match_here [] s = True"
| "match_here (a # as) [] = False"
| "match_here (a # as) (c # cs) = (atom_matches a c \<and> match_here as cs)"

fun search_from :: "atom list \<Rightarrow> nat \<Rightarrow> string \<Rightarrow> (nat \<times> nat) option" where
  "search_from p i [] = (if match_here p [] then Some (i, i + length p) else None)"
| "search_from p i (c # cs) =
     (if match_here p (c # cs) then Some (i, i + length p) else search_from p (Suc i) cs)"

definition re_search :: "atom list \<Rightarrow> string \<Rightarrow> (nat \<times> nat) option" where
  "re_search p s = search_from p 0 s"

definition date_regex :: "atom list" where
  "date_regex = [Digit, Digit, Digit, Digit, Lit CHR ''-'', Digit, Digit, Lit CHR ''-'',
                 Digit, Digit]"

text \<open>
  The spec's words for what the expression matches, written without the matcher: an ISO
  date token is four digits, a dash, two digits, a dash and two digits.
\<close>

definition iso_date :: "string \<Rightarrow> bool" where
  "iso_date d =
     (length d = 10 \<and> list_all isdigit (take 4 d) \<and> d ! 4 = CHR ''-'' \<and>
      list_all isdigit (take 2 (drop 5 d)) \<and> d ! 7 = CHR ''-'' \<and> list_all isdigit (drop 8 d))"

subsection \<open>The helpers the client imports\<close>

text \<open>
  Modelled from the spec: \<^verbatim>\<open>execute\<close> of \<^verbatim>\<open>rbtools.utils.process\<close>, which is not part of
  this file. It runs the command and returns its output; an exit status other than zero
  is fatal (\<^verbatim>\<open>die\<close>) unless \<^verbatim>\<open>ignore_errors\<close> is set or the status is one of
  \<^verbatim>\<open>extra_ignore_errors\<close>.
\<close>

definition execute :: "env \<Rightarrow> string list \<Rightarrow> bool \<Rightarrow> int list \<Rightarrow> state \<Rightarrow> string result" where
  "execute w command ignore_errors extra_ignore_errors s =
     (let (rc, data) = run w command;
          s' = s\<lparr>trace := trace s @ [Execute command]\<rparr>
      in if rc \<noteq> 0 \<and> \<not> ignore_errors \<and> rc \<notin> set extra_ignore_errors
         then (Inl Die, s') else (Inr data, s'))"

text \<open>
  Modelled from the spec: \<^verbatim>\<open>check_install\<close> of \<^verbatim>\<open>rbtools.utils.checks\<close>, which is not part
  of this file. It tries to start the command and says whether that worked.
\<close>

definition check_install :: "env \<Rightarrow> string \<Rightarrow> state \<Rightarrow> bool \<times> state" where
  "check_install w command s = (installed w command, s\<lparr>trace := trace s @ [CheckInstall command]\<rparr>)"

text \<open>
  Modelled from the spec: \<^verbatim>\<open>debug\<close>, the logging helper of the surrounding tool. This file
  calls it but neither defines nor imports it; the spec gives the extractors no effect
  beyond the subprocess, so it only records its message.
\<close>

definition debug :: "string \<Rightarrow> state \<Rightarrow> state" where
  "debug msg s = s\<lparr>debug_log := debug_log s @ [msg]\<rparr>"

subsection \<open>The client\<close>

text \<open>
  The message that \<^verbatim>\<open>_get_config\<close> looks for. The name stands between double quotes, the
  character \<open>0x22\<close>.
\<close>

definition no_option_message :: "string \<Rightarrow> string" where
  "no_option_message name =
     ''ERROR: The '' @ [CHR 0x22] @ name @ [CHR 0x22] @ '' configuration option does not exist.''"

definition get_config :: "env \<Rightarrow> string \<Rightarrow> state \<Rightarrow> string option result" where
  "get_config w name s =
     (case execute w [''bzr'', ''config'', name] False [3] s of
        (Inl e, s1) \<Rightarrow> (Inl e, s1)
      | (Inr v, s1) \<Rightarrow>
          if sublist (no_option_message name) v
          then (Inr None, s1)
          else (Inr (Some (rstrip v)), s1))"

text \<open>The loop of \<^verbatim>\<open>get_repository_info\<close> over the configuration keys, left at the first hit.\<close>

fun find_branch :: "env \<Rightarrow> string list \<Rightarrow> state \<Rightarrow> string option result" where
  "find_branch w [] s = (Inr None, s)"
| "find_branch w (location # locations) s =
     (case get_config w location s of
        (Inl e, s1) \<Rightarrow> (Inl e, s1)
      | (Inr (Some branch), s1) \<Rightarrow> (Inr (Some branch), s1)
      | (Inr None, s1) \<Rightarrow> find_branch w locations s1)"

definition get_repository_info :: "env \<Rightarrow> state \<Rightarrow> repository_info option result" where
  "get_repository_info w s =
     (case check_install w ''bzr help'' s of
        (False, s0) \<Rightarrow> (Inr None, s0)
      | (True, s0) \<Rightarrow>
          if truthy (repository_url (opts s0))
          then (Inr (Some \<lparr>path = the (repository_url (opts s0)), base_path = ''/'',
                           supports_parent_diffs = True\<rparr>), s0)
          else (case find_branch w [''submit_branch'', ''parent_location''] s0 of
                  (Inl e, s1) \<Rightarrow> (Inl e, s1)
                | (Inr None, s1) \<Rightarrow> (Inr None, s1)
                | (Inr (Some branch), s1) \<Rightarrow>
                    (Inr (Some \<lparr>path = branch, base_path = ''/'',
                                supports_parent_diffs = True\<rparr>), s1)))"

definition get_range_diff :: "env \<Rightarrow> string \<Rightarrow> string list \<Rightarrow> state \<Rightarrow> string option result" where
  "get_range_diff w revision_range files s =
     (let diff_cmd = [''bzr'', ''dif'', ''-q'', ''-r'', revision_range];
          s0 = s\<lparr>printed := printed s @ [diff_cmd @ files]\<rparr>
      in case execute w (diff_cmd @ files) True [] s0 of
           (Inl e, s1) \<Rightarrow> (Inl e, s1)
         | (Inr d, s1) \<Rightarrow> (Inr (if d = [] then None else Some d), s1))"

definition extract_summary :: "env \<Rightarrow> string \<Rightarrow> state \<Rightarrow> string result" where
  "extract_summary w revision s =
     (case execute w [''bzr'', ''log'', ''-r'', revision, ''--line''] False [] s of
        (Inl e, s1) \<Rightarrow> (Inl e, s1)
      | (Inr out, s1) \<Rightarrow>
          (let log_message = rstrip out in
           case re_search date_regex log_message of
             None \<Rightarrow> (Inl AttributeError, s1)
           | Some (match_start, match_end) \<Rightarrow>
               (let truncated_characters = match_end + 1;
                    summary = drop truncated_characters log_message
                in (Inr summary, debug (''Summary: '' @ summary) s1))))"

definition extract_description :: "env \<Rightarrow> string option \<Rightarrow> state \<Rightarrow> string result" where
  "extract_description w revision_range s =
     (let command =
            [''bzr''] @
            (if truthy revision_range
             then [''log'', ''-n1'', ''--gnu-changelog'', ''--exclude-common-ancestry'',
                   ''-r'', the revision_range]
             else [''missing'', ''-q'', ''--mine-only'', ''--gnu-changelog'',
                   (if truthy (parent_branch (opts s)) then the (parent_branch (opts s))
                    else '':submit'')]) @
            [''--short'']
      in case execute w command True [] s of
           (Inl e, s1) \<Rightarrow> (Inl e, s1)
         | (Inr out, s1) \<Rightarrow>
             (let changelog = rstrip out
              in (Inr changelog, debug (''Changelog:'' @ [CHR 0x0A] @ changelog) s1)))"

definition set_summary :: "env \<Rightarrow> string \<Rightarrow> state \<Rightarrow> unit result" where
  "set_summary w revision s =
     (if guess_summary (opts s) \<and> \<not> truthy (summary (opts s))
      then (case extract_summary w revision s of
              (Inl e, s1) \<Rightarrow> (Inl e, s1)
            | (Inr v, s1) \<Rightarrow> (Inr (), s1\<lparr>opts := (opts s1)\<lparr>summary := Some v\<rparr>\<rparr>))
      else (Inr (), s))"

definition set_description :: "env \<Rightarrow> string option \<Rightarrow> state \<Rightarrow> unit result" where
  "set_description w revision_range s =
     (if guess_description (opts s) \<and> \<not> truthy (description (opts s))
      then (case extract_description w revision_range s of
              (Inl e, s1) \<Rightarrow> (Inl e, s1)
            | (Inr v, s1) \<Rightarrow> (Inr (), s1\<lparr>opts := (opts s1)\<lparr>description := Some v\<rparr>\<rparr>))
      else (Inr (), s))"


text \<open>
  \<^verbatim>\<open>revision_range.split("..")[1]\<close> raises \<^verbatim>\<open>IndexError\<close> when the split has fewer than two
  pieces. The \<^verbatim>\<open>repository_info\<close> argument is not used.
\<close>

definition diff_between_revisions ::
  "env \<Rightarrow> string \<Rightarrow> string list \<Rightarrow> repository_info option \<Rightarrow> state \<Rightarrow> string option result" where
  "diff_between_revisions w revision_range files repository_info s =
     (case get_range_diff w revision_range files s of
        (Inl e, s1) \<Rightarrow> (Inl e, s1)
      | (Inr d, s1) \<Rightarrow>
          (let pieces = str_split revision_range ''..'' in
           if length pieces \<le> 1 then (Inl IndexError, s1)
           else
             (let last_revision = pieces ! 1 in
              case set_summary w last_revision s1 of
                (Inl e, s2) \<Rightarrow> (Inl e, s2)
              | (Inr _, s2) \<Rightarrow>
                  (case set_description w (Some revision_range) s2 of
                     (Inl e, s3) \<Rightarrow> (Inl e, s3)
                   | (Inr _, s3) \<Rightarrow> (Inr d, s3)))))"

subsection \<open>Worlds and states for running the client on concrete inputs\<close>

text \<open>
  A world given by a table from command lines to exit status and output; a command that
  is not in the table succeeds and prints nothing. Every command can be started.
\<close>

definition world_of :: "(string list \<times> int \<times> string) list \<Rightarrow> env" where
  "world_of answers =
     \<lparr>installed = (\<lambda>command. True),
      run = (\<lambda>command. case map_of answers command of Some a \<Rightarrow> a | None \<Rightarrow> (0, []))\<rparr>"

definition no_options :: options where
  "no_options =
     \<lparr>repository_url = None, parent_branch = None, guess_summary = False,
      guess_description = False, summary = None, description = None\<rparr>"

definition fresh :: "options \<Rightarrow> state" where
  "fresh os = \<lparr>opts = os, trace = [], printed = [], debug_log = []\<rparr>"

section \<open>Properties\<close>

subsection \<open>Subprocesses\<close>

text \<open>
  What each helper that starts a subprocess returns and how it changes the state, in
  terms of the answer of the world.
\<close>

lemma execute_eq:
  "execute w c ig ex s =
     (if fst (run w c) \<noteq> 0 \<and> \<not> ig \<and> fst (run w c) \<notin> set ex then Inl Die else Inr (snd (run w c)),
      s\<lparr>trace := trace s @ [Execute c]\<rparr>)"
  by (simp add: execute_def Let_def split: prod.splits)

lemma get_range_diff_eq:
  "get_range_diff w r fs s =
     (Inr (if snd (run w ([''bzr'', ''dif'', ''-q'', ''-r'', r] @ fs)) = [] then None
           else Some (snd (run w ([''bzr'', ''dif'', ''-q'', ''-r'', r] @ fs)))),
      s\<lparr>printed := printed s @ [[''bzr'', ''dif'', ''-q'', ''-r'', r] @ fs],
        trace := trace s @ [Execute ([''bzr'', ''dif'', ''-q'', ''-r'', r] @ fs)]\<rparr>)"
  by (simp add: get_range_diff_def execute_eq Let_def)

lemma get_config_eq:
  "get_config w name s =
     (if fst (run w [''bzr'', ''config'', name]) \<noteq> 0 \<and> fst (run w [''bzr'', ''config'', name]) \<noteq> 3
      then Inl Die
      else if sublist (no_option_message name) (snd (run w [''bzr'', ''config'', name])) then Inr None
      else Inr (Some (rstrip (snd (run w [''bzr'', ''config'', name])))),
      s\<lparr>trace := trace s @ [Execute [''bzr'', ''config'', name]]\<rparr>)"
  by (simp add: get_config_def execute_eq)

subsection \<open>The date expression\<close>

text \<open>
  The matcher accepts a string exactly when the string starts with an ISO date token, and
  the search finds the leftmost position where it does.
\<close>

lemma match_here_iff:
  "match_here p s \<longleftrightarrow> length p \<le> length s \<and> list_all2 atom_matches p (take (length p) s)"
  by (induction p s rule: match_here.induct) auto

lemma match_here_append: "match_here p d \<Longrightarrow> match_here p (d @ r)"
  by (simp add: match_here_iff)

lemma match_here_take: "match_here p s \<Longrightarrow> match_here p (take (length p) s)"
  by (simp add: match_here_iff)

lemma length_10E:
  assumes "length d = 10"
  obtains a b c e f g h i j k where "d = [a, b, c, e, f, g, h, i, j, k]"
  using assms by (auto simp: eval_nat_numeral length_Suc_conv)

lemma iso_date_iff: "iso_date d \<longleftrightarrow> length d = 10 \<and> match_here date_regex d"
proof (cases "length d = 10")
  case True
  then obtain a b c e f g h i j k where "d = [a, b, c, e, f, g, h, i, j, k]"
    by (rule length_10E)
  then show ?thesis
    by (auto simp: iso_date_def date_regex_def)
next
  case False
  then show ?thesis by (simp add: iso_date_def)
qed

lemma all_le_Suc: "(\<forall>k\<le>Suc n. Q k) \<longleftrightarrow> Q 0 \<and> (\<forall>k\<le>n. Q (Suc k))"
  by (metis Suc_le_mono le0 not0_implies_Suc)

lemma search_from_None:
  "search_from p i s = None \<longleftrightarrow> (\<forall>k\<le>length s. \<not> match_here p (drop k s))"
  by (induction s arbitrary: i) (simp_all add: all_le_Suc)




lemma no_date_search:
  assumes "\<not> (\<exists>b d r. line = b @ d @ r \<and> iso_date d)"
  shows "re_search date_regex line = None"
proof -
  have len: "length date_regex = 10" by (simp add: date_regex_def)
  have "\<not> match_here date_regex (drop k line)" for k
  proof
    assume m: "match_here date_regex (drop k line)"
    let ?d = "take 10 (drop k line)"
    have "length ?d = 10" using m by (simp add: match_here_iff len)
    moreover have "match_here date_regex ?d" using match_here_take [OF m] by (simp add: len)
    ultimately have "iso_date ?d" by (simp add: iso_date_iff)
    moreover have "line = take k line @ ?d @ drop 10 (drop k line)"
      by (simp only: append_take_drop_id)
    ultimately show False using assms by blast
  qed
  then show ?thesis by (simp add: re_search_def search_from_None)
qed


subsection \<open>Splitting at a separator\<close>

text \<open>
  A string without the separator is returned as the only piece; a string with the
  separator gives at least two pieces, the first of which ends where the separator first
  occurs.
\<close>

lemma split_from_none:
  "\<not> sublist sep s \<Longrightarrow> split_from sep acc s = [rev acc @ s]"
proof (induction s arbitrary: acc)
  case Nil
  then show ?case by (simp add: split_from.simps [of sep acc "[]"])
next
  case (Cons c cs)
  from Cons.prems have np: "\<not> prefix sep (c # cs)" and ns: "\<not> sublist sep cs"
    by (auto simp: sublist_Cons_right)
  show ?case
    using np Cons.IH [OF ns, of "c # acc"]
    by (simp add: split_from.simps [of sep acc "c # cs"])
qed

lemma split_from_nonempty: "split_from sep acc s \<noteq> []"
  by (induction sep acc s rule: split_from.induct) (subst split_from.simps, simp)

lemma split_from_some:
  "sep \<noteq> [] \<Longrightarrow> sublist sep s \<Longrightarrow> 2 \<le> length (split_from sep acc s)"
proof (induction s arbitrary: acc)
  case Nil
  then show ?case by simp
next
  case (Cons c cs)
  show ?case
  proof (cases "prefix sep (c # cs)")
    case True
    have "1 \<le> length (split_from sep [] (drop (length sep) (c # cs)))"
      using split_from_nonempty [of sep "[]" "drop (length sep) (c # cs)"]
      by (simp add: Suc_le_eq)
    with True Cons.prems(1) show ?thesis
      by (simp add: split_from.simps [of sep acc "c # cs"])
  next
    case False
    with Cons.prems have "sublist sep cs" by (simp add: sublist_Cons_right)
    from Cons.IH [OF Cons.prems(1) this, of "c # acc"] False show ?thesis
      by (simp add: split_from.simps [of sep acc "c # cs"])
  qed
qed

lemma split_from_first:
  "sep \<noteq> [] \<Longrightarrow> \<forall>k<length a. \<not> prefix sep (drop k (a @ sep @ b)) \<Longrightarrow>
   split_from sep acc (a @ sep @ b) = (rev acc @ a) # split_from sep [] b"
proof (induction a arbitrary: acc)
  case Nil
  then show ?case by (simp add: split_from.simps [of sep acc "sep @ b"])
next
  case (Cons x a)
  from Cons.prems(2) have np: "\<not> prefix sep (x # a @ sep @ b)" by force
  have "\<forall>k<length a. \<not> prefix sep (drop k (a @ sep @ b))"
  proof (intro allI impI)
    fix k assume "k < length a"
    then have "Suc k < length (x # a)" by simp
    with Cons.prems(2) have "\<not> prefix sep (drop (Suc k) ((x # a) @ sep @ b))" by blast
    then show "\<not> prefix sep (drop k (a @ sep @ b))" by simp
  qed
  from Cons.IH [OF Cons.prems(1) this, of "x # acc"] np show ?case
    by (simp add: split_from.simps [of sep acc "x # a @ sep @ b"])
qed

lemma dots_first:
  assumes "\<not> sublist ''..'' (a @ ''.'')"
  shows "\<forall>k<length a. \<not> prefix ''..'' (drop k (a @ ''..'' @ b))"
proof (intro allI impI notI)
  fix k assume k: "k < length a" and p: "prefix ''..'' (drop k (a @ ''..'' @ b))"
  have eq: "drop k (a @ ''..'' @ b) = drop k (a @ ''.'') @ ''.'' @ b" using k by simp
  have len: "length ''..'' \<le> length (drop k (a @ ''.''))" using k by simp
  have "prefix ''..'' (drop k (a @ ''.'') @ ''.'' @ b)" using p eq by simp
  moreover have "prefix (drop k (a @ ''.'')) (drop k (a @ ''.'') @ ''.'' @ b)" by simp
  ultimately have "prefix ''..'' (drop k (a @ ''.''))"
    using len by (rule prefix_length_prefix)
  then have "sublist ''..'' (drop k (a @ ''.''))" by (rule prefix_imp_sublist)
  then have "sublist ''..'' (a @ ''.'')"
    by (rule sublist_order.order_trans) (rule sublist_drop)
  with assms show False by simp
qed

subsection \<open>What the setters leave alone\<close>









lemma set_summary_not_IndexError: "fst (set_summary w r s) \<noteq> Inl IndexError"
  by (simp add: set_summary_def extract_summary_def execute_eq Let_def
      split: prod.splits sum.splits option.splits)

lemma set_description_returns: "\<exists>s'. set_description w rr s = (Inr (), s')"
  by (simp add: set_description_def extract_description_def execute_eq Let_def)



subsection \<open>Summary and description are filled only when absent\<close>



subsection \<open>The summary\<close>



subsection \<open>Configuration values\<close>

text \<open>
  Claim C3. When \<^verbatim>\<open>bzr config name\<close> ends with status 0 or 3 (the statuses that
  \<^verbatim>\<open>_get_config\<close> accepts), \<^verbatim>\<open>_get_config\<close> returns \<^verbatim>\<open>None\<close> if the output contains the
  message that the option does not exist, and the output without trailing whitespace
  otherwise.
\<close>

theorem get_config_absent_or_stripped:
  assumes "run w [''bzr'', ''config'', name] = (rc, out)"
    and "rc = 0 \<or> rc = 3"
  shows "fst (get_config w name s) =
           (if \<exists>ps ss. out = ps @ no_option_message name @ ss then Inr None
            else Inr (Some (rstrip out)))"
  using assms by (auto simp: get_config_eq sublist_def)

text \<open>
A configured key, and a key that \<^verbatim>\<open>bzr\<close> reports as missing with status 3.
\<close>

theorem get_config_absent_or_stripped_witness:
  "fst (get_config
          (world_of [([''bzr'', ''config'', ''submit_branch''], (0, ''lp:trunk'' @ [CHR 0x0A]))])
          ''submit_branch'' (fresh no_options)) = Inr (Some ''lp:trunk'') \<and>
   fst (get_config
          (world_of [([''bzr'', ''config'', ''parent_location''],
                      (3, ''bzr: '' @ no_option_message ''parent_location'' @ [CHR 0x0A]))])
          ''parent_location'' (fresh no_options)) = Inr None"
proof -
  let ?w1 = "world_of [([''bzr'', ''config'', ''submit_branch''], (0, ''lp:trunk'' @ [CHR 0x0A]))]"
  let ?w2 = "world_of [([''bzr'', ''config'', ''parent_location''],
                      (3, ''bzr: '' @ no_option_message ''parent_location'' @ [CHR 0x0A]))]"
  have r1: "run ?w1 [''bzr'', ''config'', ''submit_branch''] = (0, ''lp:trunk'' @ [CHR 0x0A])"
    by (simp add: world_of_def)
  have r2: "run ?w2 [''bzr'', ''config'', ''parent_location''] =
              (3, ''bzr: '' @ no_option_message ''parent_location'' @ [CHR 0x0A])"
    by (simp add: world_of_def)
  have n1: "\<not> (\<exists>ps ss. ''lp:trunk'' @ [CHR 0x0A] = ps @ no_option_message ''submit_branch'' @ ss)"
  proof
    assume "\<exists>ps ss. ''lp:trunk'' @ [CHR 0x0A] = ps @ no_option_message ''submit_branch'' @ ss"
    then obtain ps ss where "''lp:trunk'' @ [CHR 0x0A] = ps @ no_option_message ''submit_branch'' @ ss"
      by blast
    then have "length (''lp:trunk'' @ [CHR 0x0A]) = length (ps @ no_option_message ''submit_branch'' @ ss)"
      by (rule arg_cong)
    then show False by (simp add: no_option_message_def)
  qed
  have y2: "\<exists>ps ss. ''bzr: '' @ no_option_message ''parent_location'' @ [CHR 0x0A] =
              ps @ no_option_message ''parent_location'' @ ss"
    by blast
  have s1: "rstrip (''lp:trunk'' @ [CHR 0x0A]) = ''lp:trunk''"
    by (simp add: rstrip_def isspace_def)
  show ?thesis
    using get_config_absent_or_stripped [OF r1, of "fresh no_options"]
      get_config_absent_or_stripped [OF r2, of "fresh no_options"] n1 y2 s1
    by simp
qed

subsection \<open>The diff of a range\<close>

text \<open>
  Claim C4. Whatever the exit status of the diff command, \<^verbatim>\<open>_get_range_diff\<close> returns
  \<^verbatim>\<open>None\<close> when the command printed nothing and the output itself otherwise; it never
  returns the empty string and never fails.
\<close>

theorem get_range_diff_empty_is_None:
  assumes "run w ([''bzr'', ''dif'', ''-q'', ''-r'', revision_range] @ files) = (rc, out)"
  shows "fst (get_range_diff w revision_range files s) = Inr (if out = [] then None else Some out)"
  using assms by (simp add: get_range_diff_eq)

text \<open>
A range without changes, and a range with a change reported with exit status 1.
\<close>

theorem get_range_diff_empty_is_None_witness:
  "fst (get_range_diff (world_of [([''bzr'', ''dif'', ''-q'', ''-r'', ''1..2'', ''a.c''], (1, ''+x''))])
          ''3..3'' [] (fresh no_options)) = Inr None \<and>
   fst (get_range_diff (world_of [([''bzr'', ''dif'', ''-q'', ''-r'', ''1..2'', ''a.c''], (1, ''+x''))])
          ''1..2'' [''a.c''] (fresh no_options)) = Inr (Some ''+x'')"
proof -
  let ?w = "world_of [([''bzr'', ''dif'', ''-q'', ''-r'', ''1..2'', ''a.c''], (1, ''+x''))]"
  have r1: "run ?w ([''bzr'', ''dif'', ''-q'', ''-r'', ''3..3''] @ []) = (0, [])"
    by (simp add: world_of_def)
  have r2: "run ?w ([''bzr'', ''dif'', ''-q'', ''-r'', ''1..2''] @ [''a.c'']) = (1, ''+x'')"
    by (simp add: world_of_def)
  show ?thesis
    using get_range_diff_empty_is_None [OF r1, of "fresh no_options"]
      get_range_diff_empty_is_None [OF r2, of "fresh no_options"]
    by simp
qed

subsection \<open>Locating the repository\<close>

text \<open>
  Claim C5. With \<^verbatim>\<open>bzr\<close> installed and no repository URL in the options,
  \<^verbatim>\<open>get_repository_info\<close> asks for \<^verbatim>\<open>submit_branch\<close> first. If that key has a value, the
  value is the path and \<^verbatim>\<open>parent_location\<close> is not asked for; otherwise
  \<^verbatim>\<open>parent_location\<close> is asked for and its value, if any, is the path; if neither key has a
  value the result is \<^verbatim>\<open>None\<close>. A query that ends with a status other than 0 and 3 is
  fatal.
\<close>

theorem repository_location_priority:
  assumes "installed w ''bzr help''"
    and "\<not> truthy (repository_url (opts s))"
    and "run w [''bzr'', ''config'', ''submit_branch''] = (rc1, out1)"
    and "run w [''bzr'', ''config'', ''parent_location''] = (rc2, out2)"
  shows "get_repository_info w s =
     (if rc1 \<noteq> 0 \<and> rc1 \<noteq> 3 then
        (Inl Die,
         s\<lparr>trace := trace s @ [CheckInstall ''bzr help'',
                                Execute [''bzr'', ''config'', ''submit_branch'']]\<rparr>)
      else if \<not> sublist (no_option_message ''submit_branch'') out1 then
        (Inr (Some \<lparr>path = rstrip out1, base_path = ''/'', supports_parent_diffs = True\<rparr>),
         s\<lparr>trace := trace s @ [CheckInstall ''bzr help'',
                                Execute [''bzr'', ''config'', ''submit_branch'']]\<rparr>)
      else if rc2 \<noteq> 0 \<and> rc2 \<noteq> 3 then
        (Inl Die,
         s\<lparr>trace := trace s @ [CheckInstall ''bzr help'',
                                Execute [''bzr'', ''config'', ''submit_branch''],
                                Execute [''bzr'', ''config'', ''parent_location'']]\<rparr>)
      else if \<not> sublist (no_option_message ''parent_location'') out2 then
        (Inr (Some \<lparr>path = rstrip out2, base_path = ''/'', supports_parent_diffs = True\<rparr>),
         s\<lparr>trace := trace s @ [CheckInstall ''bzr help'',
                                Execute [''bzr'', ''config'', ''submit_branch''],
                                Execute [''bzr'', ''config'', ''parent_location'']]\<rparr>)
      else
        (Inr None,
         s\<lparr>trace := trace s @ [CheckInstall ''bzr help'',
                                Execute [''bzr'', ''config'', ''submit_branch''],
                                Execute [''bzr'', ''config'', ''parent_location'']]\<rparr>))"
  using assms
  by (simp add: get_repository_info_def check_install_def get_config_eq)

text \<open>
Both keys configured, only the second configured, and none configured.
\<close>

theorem repository_location_priority_witness:
  "fst (get_repository_info
          (world_of [([''bzr'', ''config'', ''submit_branch''], (0, ''lp:trunk'' @ [CHR 0x0A])),
                     ([''bzr'', ''config'', ''parent_location''], (0, ''lp:parent'' @ [CHR 0x0A]))])
          (fresh no_options)) =
     Inr (Some \<lparr>path = ''lp:trunk'', base_path = ''/'', supports_parent_diffs = True\<rparr>) \<and>
   fst (get_repository_info
          (world_of [([''bzr'', ''config'', ''submit_branch''],
                      (3, no_option_message ''submit_branch'')),
                     ([''bzr'', ''config'', ''parent_location''], (0, ''lp:parent'' @ [CHR 0x0A]))])
          (fresh no_options)) =
     Inr (Some \<lparr>path = ''lp:parent'', base_path = ''/'', supports_parent_diffs = True\<rparr>) \<and>
   fst (get_repository_info
          (world_of [([''bzr'', ''config'', ''submit_branch''],
                      (3, no_option_message ''submit_branch'')),
                     ([''bzr'', ''config'', ''parent_location''],
                      (3, no_option_message ''parent_location''))])
          (fresh no_options)) = Inr None"
proof -
  let ?sb = "[''bzr'', ''config'', ''submit_branch'']"
  let ?pl = "[''bzr'', ''config'', ''parent_location'']"
  let ?w1 = "world_of [(?sb, (0, ''lp:trunk'' @ [CHR 0x0A])), (?pl, (0, ''lp:parent'' @ [CHR 0x0A]))]"
  let ?w2 = "world_of [(?sb, (3, no_option_message ''submit_branch'')),
                       (?pl, (0, ''lp:parent'' @ [CHR 0x0A]))]"
  let ?w3 = "world_of [(?sb, (3, no_option_message ''submit_branch'')),
                       (?pl, (3, no_option_message ''parent_location''))]"
  have i: "installed ?w1 ''bzr help''" "installed ?w2 ''bzr help''" "installed ?w3 ''bzr help''"
    by (simp_all add: world_of_def)
  have u: "\<not> truthy (repository_url (opts (fresh no_options)))"
    by (simp add: fresh_def no_options_def truthy_def)
  have r1: "run ?w1 ?sb = (0, ''lp:trunk'' @ [CHR 0x0A])" "run ?w1 ?pl = (0, ''lp:parent'' @ [CHR 0x0A])"
    by (simp_all add: world_of_def)
  have r2: "run ?w2 ?sb = (3, no_option_message ''submit_branch'')"
    "run ?w2 ?pl = (0, ''lp:parent'' @ [CHR 0x0A])"
    by (simp_all add: world_of_def)
  have r3: "run ?w3 ?sb = (3, no_option_message ''submit_branch'')"
    "run ?w3 ?pl = (3, no_option_message ''parent_location'')"
    by (simp_all add: world_of_def)
  have n1: "\<not> sublist (no_option_message ''submit_branch'') (''lp:trunk'' @ [CHR 0x0A])"
    by (simp add: no_option_message_def sublist_code)
  have n2: "\<not> sublist (no_option_message ''parent_location'') (''lp:parent'' @ [CHR 0x0A])"
    by (simp add: no_option_message_def sublist_code)
  have s: "rstrip (''lp:trunk'' @ [CHR 0x0A]) = ''lp:trunk''"
    "rstrip (''lp:parent'' @ [CHR 0x0A]) = ''lp:parent''"
    by (simp_all add: rstrip_def isspace_def)
  show ?thesis
    using repository_location_priority [OF i(1) u r1]
      repository_location_priority [OF i(2) u r2]
      repository_location_priority [OF i(3) u r3] n1 n2 s
    by simp
qed

text \<open>
  Claim C6. With \<^verbatim>\<open>bzr\<close> installed and a non-empty repository URL in the options,
  \<^verbatim>\<open>get_repository_info\<close> returns that URL as the path, with base path \<^verbatim>\<open>/\<close> and parent
  diffs supported, and the installation check is the only thing it runs.
\<close>

theorem explicit_url_short_circuits:
  assumes "installed w ''bzr help''"
    and "repository_url (opts s) = Some url"
    and "url \<noteq> []"
  shows "get_repository_info w s =
           (Inr (Some \<lparr>path = url, base_path = ''/'', supports_parent_diffs = True\<rparr>),
            s\<lparr>trace := trace s @ [CheckInstall ''bzr help'']\<rparr>)"
  using assms by (simp add: get_repository_info_def check_install_def truthy_def)

text \<open>
The URL of the spec, \<^verbatim>\<open>lp:myproj\<close>.
\<close>

theorem explicit_url_short_circuits_witness:
  "get_repository_info (world_of []) (fresh (no_options\<lparr>repository_url := Some ''lp:myproj''\<rparr>)) =
     (Inr (Some \<lparr>path = ''lp:myproj'', base_path = ''/'', supports_parent_diffs = True\<rparr>),
      (fresh (no_options\<lparr>repository_url := Some ''lp:myproj''\<rparr>))\<lparr>trace := [CheckInstall ''bzr help'']\<rparr>)"
proof -
  have i: "installed (world_of []) ''bzr help''"
    by (simp add: world_of_def)
  have u: "repository_url (opts (fresh (no_options\<lparr>repository_url := Some ''lp:myproj''\<rparr>))) = Some ''lp:myproj''"
    by (simp add: fresh_def)
  have n: "''lp:myproj'' \<noteq> []"
    by simp
  show ?thesis
    using explicit_url_short_circuits [OF i u n] by (simp add: fresh_def)
qed

subsection \<open>The diff of the pending changes\<close>




text \<open>
  Claim C8. \<^verbatim>\<open>_get_range_diff\<close> starts exactly one subprocess, with the command line
  \<^verbatim>\<open>bzr dif -q -r\<close>, the range, and then the files; \<^verbatim>\<open>dif\<close> is how the client spells the
  diff subcommand.
\<close>

theorem get_range_diff_command_line:
  "trace (snd (get_range_diff w revision_range files s)) =
     trace s @ [Execute ([''bzr'', ''dif'', ''-q'', ''-r'', revision_range] @ files)]"
  by (simp add: get_range_diff_eq)

subsection \<open>The diff between two revisions\<close>

text \<open>
  Claim C9. \<^verbatim>\<open>diff_between_revisions\<close> takes the second piece of the range split at
  \<^verbatim>\<open>..\<close> as the revision of the summary. For a range without \<^verbatim>\<open>..\<close> it fails with
  \<^verbatim>\<open>IndexError\<close>, after the diff command has run and before anything else happens; for a
  range with \<^verbatim>\<open>..\<close> it does not fail that way. A range \<open>a..b\<close> whose only \<^verbatim>\<open>..\<close> is the
  one in the middle splits into \<open>a\<close> and \<open>b\<close>.
\<close>

theorem range_without_dots_fails:
  "(\<not> sublist ''..'' revision_range \<longrightarrow>
      diff_between_revisions w revision_range files info s =
        (Inl IndexError,
         s\<lparr>printed := printed s @ [[''bzr'', ''dif'', ''-q'', ''-r'', revision_range] @ files],
           trace := trace s @ [Execute ([''bzr'', ''dif'', ''-q'', ''-r'', revision_range] @ files)]\<rparr>)) \<and>
   (sublist ''..'' revision_range \<longrightarrow>
      fst (diff_between_revisions w revision_range files info s) \<noteq> Inl IndexError) \<and>
   (revision_range = a @ ''..'' @ b \<and> \<not> sublist ''..'' (a @ ''.'') \<and> \<not> sublist ''..'' b \<longrightarrow>
      str_split revision_range ''..'' = [a, b])"
proof (intro conjI impI)
  assume "\<not> sublist ''..'' revision_range"
  then have "str_split revision_range ''..'' = [revision_range]"
    by (simp add: str_split_def split_from_none)
  then show "diff_between_revisions w revision_range files info s =
        (Inl IndexError,
         s\<lparr>printed := printed s @ [[''bzr'', ''dif'', ''-q'', ''-r'', revision_range] @ files],
           trace := trace s @ [Execute ([''bzr'', ''dif'', ''-q'', ''-r'', revision_range] @ files)]\<rparr>)"
    by (simp add: diff_between_revisions_def get_range_diff_eq)
next
  assume "sublist ''..'' revision_range"
  then have two: "2 \<le> length (str_split revision_range ''..'')"
    by (simp add: str_split_def split_from_some)
  let ?s1 = "snd (get_range_diff w revision_range files s)"
  let ?r = "str_split revision_range ''..'' ! 1"
  obtain res s2 where sm: "set_summary w ?r ?s1 = (res, s2)"
    by (cases "set_summary w ?r ?s1")
  obtain s3 where sd: "set_description w (Some revision_range) s2 = (Inr (), s3)"
    using set_description_returns by blast
  have "res \<noteq> Inl IndexError"
    using set_summary_not_IndexError [of w ?r ?s1] sm by simp
  then show "fst (diff_between_revisions w revision_range files info s) \<noteq> Inl IndexError"
    using two sm sd
    by (cases res) (simp_all add: diff_between_revisions_def get_range_diff_eq Let_def)
next
  assume h: "revision_range = a @ ''..'' @ b \<and> \<not> sublist ''..'' (a @ ''.'') \<and> \<not> sublist ''..'' b"
  then have "split_from ''..'' [] (a @ ''..'' @ b) = (rev [] @ a) # split_from ''..'' [] b"
    by (intro split_from_first dots_first) simp_all
  with h show "str_split revision_range ''..'' = [a, b]"
    by (simp add: str_split_def split_from_none)
qed

text \<open>
A single revision, a range, and a range of dotted revision numbers.
\<close>

theorem range_without_dots_fails_witness:
  "diff_between_revisions (world_of []) ''42'' [] None (fresh no_options) =
     (Inl IndexError,
      (fresh no_options)\<lparr>printed := [[''bzr'', ''dif'', ''-q'', ''-r'', ''42'']],
        trace := [Execute [''bzr'', ''dif'', ''-q'', ''-r'', ''42'']]\<rparr>) \<and>
   fst (diff_between_revisions (world_of []) ''1..2'' [] None (fresh no_options)) \<noteq> Inl IndexError \<and>
   str_split ''1.1..2'' ''..'' = [''1.1'', ''2'']"
proof -
  have n: "\<not> sublist ''..'' ''42''" "\<not> sublist ''..'' (''1.1'' @ ''.'')" "\<not> sublist ''..'' ''2''"
    by (simp_all add: sublist_code)
  have y: "sublist ''..'' ''1..2''"
    by (simp add: sublist_code)
  have e: "''1.1..2'' = ''1.1'' @ ''..'' @ ''2''"
    by simp
  have t1: "diff_between_revisions (world_of []) ''42'' [] None (fresh no_options) =
     (Inl IndexError,
      (fresh no_options)\<lparr>printed := printed (fresh no_options) @ [[''bzr'', ''dif'', ''-q'', ''-r'', ''42''] @ []],
        trace := trace (fresh no_options) @ [Execute ([''bzr'', ''dif'', ''-q'', ''-r'', ''42''] @ [])]\<rparr>)"
    using range_without_dots_fails [of "''42''" "world_of []" "[]" None "fresh no_options"] n(1)
    by blast
  have t2: "fst (diff_between_revisions (world_of []) ''1..2'' [] None (fresh no_options)) \<noteq> Inl IndexError"
    using range_without_dots_fails [of "''1..2''" "world_of []" "[]" None "fresh no_options"] y
    by blast
  have t3: "str_split ''1.1..2'' ''..'' = [''1.1'', ''2'']"
    using range_without_dots_fails [of "''1.1..2''" "world_of []" "[]" None "fresh no_options" "''1.1''" "''2''"]
      n(2) n(3) e
    by blast
  show ?thesis
    using t1 t2 t3 by (simp add: fresh_def)
qed

subsection \<open>A log line without a date\<close>

text \<open>
  Claim C10. When the command succeeds and its log line holds no ISO date token, the
  search finds nothing and \<^verbatim>\<open>_extract_summary\<close> fails with the \<^verbatim>\<open>AttributeError\<close> of
  \<^verbatim>\<open>None.end()\<close>, after the log command has run; no summary is returned.
\<close>

theorem extract_summary_without_date:
  assumes "run w [''bzr'', ''log'', ''-r'', revision, ''--line''] = (0, out)"
    and "\<not> (\<exists>b d r. rstrip out = b @ d @ r \<and> iso_date d)"
  shows "extract_summary w revision s =
           (Inl AttributeError,
            s\<lparr>trace := trace s @ [Execute [''bzr'', ''log'', ''-r'', revision, ''--line'']]\<rparr>)"
  using no_date_search [OF assms(2)] assms(1)
  by (simp add: extract_summary_def execute_eq Let_def)

text \<open>
A log line without a date.
\<close>

theorem extract_summary_without_date_witness:
  "extract_summary (world_of [([''bzr'', ''log'', ''-r'', ''7'', ''--line''], (0, ''7: Jane Doe fixes''))])
     ''7'' (fresh no_options) =
   (Inl AttributeError,
    (fresh no_options)\<lparr>trace := [Execute [''bzr'', ''log'', ''-r'', ''7'', ''--line'']]\<rparr>)"
proof -
  let ?out = "''7: Jane Doe fixes''"
  let ?w = "world_of [([''bzr'', ''log'', ''-r'', ''7'', ''--line''], (0, ?out))]"
  have run: "run ?w [''bzr'', ''log'', ''-r'', ''7'', ''--line''] = (0, ?out)"
    by (simp add: world_of_def)
  have none: "re_search date_regex (rstrip ?out) = None"
    by (simp add: rstrip_def isspace_def re_search_def date_regex_def isdigit_def)
  have nodate: "\<not> (\<exists>b d r. rstrip ?out = b @ d @ r \<and> iso_date d)"
  proof
    assume "\<exists>b d r. rstrip ?out = b @ d @ r \<and> iso_date d"
    then obtain b d r where h: "rstrip ?out = b @ d @ r" "iso_date d" by blast
    then have "match_here date_regex (drop (length b) (rstrip ?out))"
      by (simp add: iso_date_iff match_here_append)
    moreover have "length b \<le> length (rstrip ?out)" using h(1) by simp
    ultimately show False
      using none by (simp add: re_search_def search_from_None)
  qed
  show ?thesis
    using extract_summary_without_date [OF run nodate, of "fresh no_options"]
    by (simp add: fresh_def)
qed

end
